theory Spec2Isabelle
  imports Complex_Main "HOL-Library.Char_ord" "HOL-Library.List_Lexorder"
    "HOL-Library.Product_Lexorder"
begin

section \<open>JavaScript values and documents\<close>

text \<open>
  The routes handle JSON bodies and documents of the record store. A value is one of the
  scalar kinds below; a document (a JavaScript object) maps field names to values, with
  \<open>JUndef\<close> for a field that is absent. Numbers are idealised as rationals: the
  rounding of doubles and the infinities are not modelled. Nested arrays and objects
  inside an item are outside the model. Strings are byte strings (UTF-8).
\<close>

datatype jsval =
    JUndef
  | JNull
  | JBool bool
  | JNum rat
  | JStr string
  | JDate int
  | JOid string

type_synonym obj = "string \<Rightarrow> jsval"

definition empty_obj :: obj where
  "empty_obj = (\<lambda>k. JUndef)"

text \<open>Truthiness, as used by \<open>||\<close>, \<open>&&\<close>, \<open>?:\<close> and \<open>if\<close>.\<close>

fun truthy :: "jsval \<Rightarrow> bool" where
  "truthy JUndef = False"
| "truthy JNull = False"
| "truthy (JBool b) = b"
| "truthy (JNum n) = (if n = 0 then False else True)"
| "truthy (JStr s) = (if s = [] then False else True)"
| "truthy (JDate t) = True"
| "truthy (JOid h) = True"

text \<open>\<open>a || b\<close>\<close>

definition js_or :: "jsval \<Rightarrow> jsval \<Rightarrow> jsval" where
  "js_or a b = (if truthy a then a else b)"

fun is_number :: "jsval \<Rightarrow> bool" where
  "is_number (JNum n) = True"
| "is_number v = False"

text \<open>Decimal rendering of a non-negative integer, as template literals print it.\<close>

fun decimal :: "nat \<Rightarrow> string" where
  "decimal n =
     (if n < 10 then [''0123456789'' ! n]
      else decimal (n div 10) @ [''0123456789'' ! (n mod 10)])"

section \<open>The record store\<close>

text \<open>
  The store is the MongoDB database behind \<open>database.records()\<close> and
  \<open>database.logs()\<close>: two collections, each a list of documents in insertion order. The
  collection primitives below follow the documented contract of the driver calls the
  routes make.
\<close>

record store =
  records :: "obj list"
  logs :: "obj list"

datatype js_error =
    DuplicateKey nat
  | InvalidArgument
  | BSONError
  | TypeError
  | RangeError
  | StoreError

text \<open>
  \<open>createIndexes\<close> declares a unique index on \<open>localId\<close>. In \<open>src/database.js\<close> it is
  \<open>{ unique: true }\<close>; in \<open>src/server/database.js\<close> it is
  \<open>{ unique: true, sparse: true }\<close>. The flag below is the \<open>sparse\<close> option. A
  non-sparse index files a document without the field under the key \<open>null\<close>; a sparse
  index leaves such a document out.
\<close>

definition sparse_in_database_js :: bool where
  "sparse_in_database_js = False"

definition sparse_in_server_database_js :: bool where
  "sparse_in_server_database_js = True"

definition index_key :: "bool \<Rightarrow> obj \<Rightarrow> jsval option" where
  "index_key sparse d =
     (if d ''localId'' = JUndef then (if sparse then None else Some JNull)
      else Some (d ''localId''))"

definition dup_localId :: "bool \<Rightarrow> obj list \<Rightarrow> obj \<Rightarrow> bool" where
  "dup_localId sparse coll d =
     (case index_key sparse d of
        None \<Rightarrow> False
      | Some k \<Rightarrow> list_ex (\<lambda>e. index_key sparse e = Some k) coll)"

text \<open>
  \<open>insertMany(docs)\<close> with the default options is an ordered, non-transactional bulk
  write: the documents are written one after the other, the first one that violates the
  unique index raises the error and stops the write, and the documents written before it
  stay in the collection. The result is the collection afterwards and either the position
  of the offending document or nothing when all were written. The driver refuses an empty
  list of documents. The unique index on \<open>_id\<close> is not modelled: generated identifiers
  are taken to be fresh, and items are taken not to bring an \<open>_id\<close> that is already
  stored.
\<close>

fun insert_loop :: "bool \<Rightarrow> obj list \<Rightarrow> obj list \<Rightarrow> nat \<Rightarrow> obj list \<times> nat option" where
  "insert_loop sparse coll [] n = (coll, None)"
| "insert_loop sparse coll (d # ds) n =
     (if dup_localId sparse coll d then (coll, Some n)
      else insert_loop sparse (coll @ [d]) ds (Suc n))"

text \<open>The driver gives every document that has no \<open>_id\<close> a generated ObjectId.\<close>

definition assign_id :: "(nat \<Rightarrow> string) \<Rightarrow> nat \<times> obj \<Rightarrow> obj" where
  "assign_id gen p =
     (case p of (i, d) \<Rightarrow> (if d ''_id'' = JUndef then d(''_id'' := JOid (gen i)) else d))"

definition insertMany ::
  "bool \<Rightarrow> (nat \<Rightarrow> string) \<Rightarrow> obj list \<Rightarrow> obj list \<Rightarrow> obj list \<times> (js_error + nat)" where
  "insertMany sparse gen coll docs =
     (if docs = [] then (coll, Inl InvalidArgument)
      else
        (case insert_loop sparse coll (map (assign_id gen) (enumerate 0 docs)) 0 of
           (coll', None) \<Rightarrow> (coll', Inr (length docs))
         | (coll', Some k) \<Rightarrow> (coll', Inl (DuplicateKey k))))"

text \<open>The logs collection has no unique index: \<open>insertOne\<close> appends.\<close>

definition insertOne :: "obj list \<Rightarrow> obj \<Rightarrow> obj list" where
  "insertOne coll d = coll @ [d]"

section \<open>Ingestion: \<open>POST /api/records\<close>\<close>

text \<open>
  The request body carries \<open>data\<close>, \<open>batchId\<close> and \<open>deviceId\<close>. \<open>body_data\<close> is
  \<open>None\<close> when \<open>data\<close> is absent or not an array. What the handler reads from its
  surroundings is collected in \<open>runtime\<close>: the clock readings taken while item \<open>i\<close>
  is stamped, the ObjectId generated for it, the identifiers the driver assigns, and the
  time the log entry is written.
\<close>

record submit_req =
  body_data :: "obj list option"
  body_batchId :: jsval
  body_deviceId :: jsval
  req_ip :: string
  body_size :: nat

record runtime =
  dateNow :: "nat \<Rightarrow> nat"
  newDate :: "nat \<Rightarrow> nat \<Rightarrow> int"
  newObjectId :: "nat \<Rightarrow> string"
  driverId :: "nat \<Rightarrow> string"
  logDate :: int

datatype response =
    BadRequest
  | Unauthorized
  | ServerError js_error
  | SubmitOk nat jsval
  | DeleteOk nat

text \<open>
  The object literal every variant of the handler builds for an item: the item's own
  fields, then the stamped ones over them.
\<close>

definition with_metadata :: "runtime \<Rightarrow> submit_req \<Rightarrow> nat \<times> obj \<Rightarrow> obj" where
  "with_metadata rt req p =
     (case p of (i, item) \<Rightarrow>
        item(''batchId'' := js_or (body_batchId req) (JStr (''batch_'' @ decimal (dateNow rt i))),
             ''deviceId'' := js_or (body_deviceId req) (JStr ''unknown''),
             ''submittedAt'' := JDate (newDate rt i 0),
             ''createdAt'' := JDate (newDate rt i 1),
             ''updatedAt'' := JDate (newDate rt i 2),
             ''syncStatus'' := JStr ''synced'',
             ''serverId'' := JStr (newObjectId rt i)))"

definition submit_log :: "runtime \<Rightarrow> submit_req \<Rightarrow> nat \<Rightarrow> obj" where
  "submit_log rt req n =
     empty_obj(''type'' := JStr ''record_submit'',
               ''batchId'' := body_batchId req,
               ''count'' := JNum (of_nat n),
               ''deviceId'' := body_deviceId req,
               ''timestamp'' := JDate (logDate rt),
               ''ip'' := JStr (req_ip req))"

text \<open>The handler of \<open>part_000\<close> (lines 44 to 98): the amounts are stored as sent.\<close>

definition post_records_plain ::
  "bool \<Rightarrow> runtime \<Rightarrow> store \<Rightarrow> submit_req \<Rightarrow> store \<times> response" where
  "post_records_plain sparse rt st req =
     (case body_data req of
        None \<Rightarrow> (st, BadRequest)
      | Some items \<Rightarrow>
          (let recordsWithMetadata = map (with_metadata rt req) (enumerate 0 items) in
           case insertMany sparse (driverId rt) (records st) recordsWithMetadata of
             (coll, Inl e) \<Rightarrow> (st\<lparr>records := coll\<rparr>, ServerError e)
           | (coll, Inr insertedCount) \<Rightarrow>
               (st\<lparr>records := coll,
                   logs := insertOne (logs st) (submit_log rt req (length recordsWithMetadata))\<rparr>,
                SubmitOk insertedCount (body_batchId req))))"

text \<open>
  The first handler of \<open>part_002\<close> (lines 44 to 109) overrides both amounts with
  \<open>Number(item.amountTWD) || 0\<close>. \<open>Number\<close> of a string is the library's conversion,
  taken as the parameter \<open>strToNumber\<close> (\<open>None\<close> is \<open>NaN\<close>).
\<close>

fun toNumber :: "(string \<Rightarrow> rat option) \<Rightarrow> jsval \<Rightarrow> rat option" where
  "toNumber strToNumber JUndef = None"
| "toNumber strToNumber JNull = Some 0"
| "toNumber strToNumber (JBool b) = Some (if b then 1 else 0)"
| "toNumber strToNumber (JNum n) = Some n"
| "toNumber strToNumber (JStr s) = strToNumber s"
| "toNumber strToNumber (JDate t) = Some (of_int t)"
| "toNumber strToNumber (JOid h) = None"

text \<open>\<open>x || 0\<close> for a number \<open>x\<close>: \<open>NaN\<close> and zero give \<open>0\<close>.\<close>

definition num_or_zero :: "rat option \<Rightarrow> jsval" where
  "num_or_zero x = (case x of None \<Rightarrow> JNum 0 | Some n \<Rightarrow> JNum n)"

definition with_metadata_number ::
  "(string \<Rightarrow> rat option) \<Rightarrow> runtime \<Rightarrow> submit_req \<Rightarrow> nat \<times> obj \<Rightarrow> obj" where
  "with_metadata_number strToNumber rt req p =
     (case p of (i, item) \<Rightarrow>
        (with_metadata rt req
           (i, item(''amountTWD'' := num_or_zero (toNumber strToNumber (item ''amountTWD'')),
                    ''amountRMB'' := num_or_zero (toNumber strToNumber (item ''amountRMB''))))))"

definition post_records_number ::
  "(string \<Rightarrow> rat option) \<Rightarrow> bool \<Rightarrow> runtime \<Rightarrow> store \<Rightarrow> submit_req \<Rightarrow> store \<times> response" where
  "post_records_number strToNumber sparse rt st req =
     (case body_data req of
        None \<Rightarrow> (st, BadRequest)
      | Some items \<Rightarrow>
          (let recordsWithMetadata =
                 map (with_metadata_number strToNumber rt req) (enumerate 0 items) in
           case insertMany sparse (driverId rt) (records st) recordsWithMetadata of
             (coll, Inl e) \<Rightarrow> (st\<lparr>records := coll\<rparr>, ServerError e)
           | (coll, Inr insertedCount) \<Rightarrow>
               (st\<lparr>records := coll,
                   logs := insertOne (logs st) (submit_log rt req (length recordsWithMetadata))\<rparr>,
                SubmitOk insertedCount (body_batchId req))))"

text \<open>
  The second handler of \<open>part_002\<close> (lines 421 to 520) stamps the item and then parses
  an amount only when it is a string: \<open>parseFloat(record.amountTWD) || 0\<close>, with
  \<open>parseFloat\<close> a parameter (\<open>None\<close> is \<open>NaN\<close>). Its log entry also carries
  \<open>insertedCount\<close>, and on failure it appends a \<open>record_submit_error\<close> entry.
\<close>

definition coerce_amount :: "(string \<Rightarrow> rat option) \<Rightarrow> string \<Rightarrow> obj \<Rightarrow> obj" where
  "coerce_amount parseFloat field record =
     (case record field of
        JStr s \<Rightarrow> record(field := num_or_zero (parseFloat s))
      | v \<Rightarrow> record)"

definition with_metadata_parse ::
  "(string \<Rightarrow> rat option) \<Rightarrow> runtime \<Rightarrow> submit_req \<Rightarrow> nat \<times> obj \<Rightarrow> obj" where
  "with_metadata_parse parseFloat rt req p =
     coerce_amount parseFloat ''amountRMB''
       (coerce_amount parseFloat ''amountTWD'' (with_metadata rt req p))"

text \<open>\<open>error.message\<close>, abridged to the head of the driver's message.\<close>

definition error_message :: "js_error \<Rightarrow> string" where
  "error_message e =
     (case e of
        DuplicateKey k \<Rightarrow> ''E11000 duplicate key error''
      | InvalidArgument \<Rightarrow> ''Invalid BulkOperation, Batch cannot be empty''
      | other \<Rightarrow> ''error'')"

definition submit_error_log :: "runtime \<Rightarrow> submit_req \<Rightarrow> js_error \<Rightarrow> obj" where
  "submit_error_log rt req e =
     empty_obj(''type'' := JStr ''record_submit_error'',
               ''error'' := JStr (error_message e),
               ''timestamp'' := JDate (logDate rt),
               ''ip'' := JStr (req_ip req),
               ''bodySize'' := JNum (of_nat (body_size req)))"

definition post_records_parse ::
  "(string \<Rightarrow> rat option) \<Rightarrow> bool \<Rightarrow> runtime \<Rightarrow> store \<Rightarrow> submit_req \<Rightarrow> store \<times> response" where
  "post_records_parse parseFloat sparse rt st req =
     (case body_data req of
        None \<Rightarrow> (st, BadRequest)
      | Some items \<Rightarrow>
          (let recordsWithMetadata =
                 map (with_metadata_parse parseFloat rt req) (enumerate 0 items) in
           case insertMany sparse (driverId rt) (records st) recordsWithMetadata of
             (coll, Inl e) \<Rightarrow>
               (st\<lparr>records := coll,
                   logs := insertOne (logs st) (submit_error_log rt req e)\<rparr>,
                ServerError e)
           | (coll, Inr insertedCount) \<Rightarrow>
               (st\<lparr>records := coll,
                   logs := insertOne (logs st)
                     ((submit_log rt req (length recordsWithMetadata))
                        (''insertedCount'' := JNum (of_nat insertedCount)))\<rparr>,
                SubmitOk insertedCount (body_batchId req))))"

section \<open>Deletion: \<open>DELETE /api/records/:id\<close>\<close>

text \<open>
  \<open>config.security.adminPassword\<close> is \<open>process.env.ADMIN_PASSWORD || 'admin123'\<close>;
  the argument is the environment variable.
\<close>

definition adminPassword :: "string option \<Rightarrow> string" where
  "adminPassword env_ADMIN_PASSWORD =
     (case env_ADMIN_PASSWORD of
        None \<Rightarrow> ''admin123''
      | Some s \<Rightarrow> (if s = [] then ''admin123'' else s))"

text \<open>
  Query parameters are strings or absent (repeated and nested parameters are outside the
  model).
\<close>

definition qtruthy :: "string option \<Rightarrow> bool" where
  "qtruthy q = (case q of None \<Rightarrow> False | Some s \<Rightarrow> (if s = [] then False else True))"

record delete_req =
  param_id :: string
  query_batchId :: "string option"
  query_adminPassword :: "string option"
  delete_ip :: string

text \<open>
  \<open>new ObjectId(id)\<close> of the driver's BSON library accepts a string of 24 hexadecimal
  digits; older versions also accept a string of 12 characters that make 12 bytes, that
  is, 12 ASCII characters (the flag \<open>accept12\<close>). Every other string makes the
  constructor throw. The result is the identifier in lower-case hexadecimal.
\<close>

definition is_ascii :: "char \<Rightarrow> bool" where
  "is_ascii c = (if (of_char c :: nat) < 128 then True else False)"

definition is_hex :: "char \<Rightarrow> bool" where
  "is_hex c = (if c \<in> set ''0123456789abcdefABCDEF'' then True else False)"

definition lower_hex :: "char \<Rightarrow> char" where
  "lower_hex c =
     (if c = CHR ''A'' then CHR ''a'' else if c = CHR ''B'' then CHR ''b''
      else if c = CHR ''C'' then CHR ''c'' else if c = CHR ''D'' then CHR ''d''
      else if c = CHR ''E'' then CHR ''e'' else if c = CHR ''F'' then CHR ''f'' else c)"

definition hex_of_byte :: "char \<Rightarrow> string" where
  "hex_of_byte c =
     [''0123456789abcdef'' ! (of_char c div 16), ''0123456789abcdef'' ! (of_char c mod 16)]"

definition ObjectId :: "bool \<Rightarrow> string \<Rightarrow> string option" where
  "ObjectId accept12 s =
     (if length s = 24 \<and> list_all is_hex s then Some (map lower_hex s)
      else if accept12 \<and> length s = 12 \<and> list_all is_ascii s
        then Some (concat (map hex_of_byte s))
      else None)"

text \<open>\<open>deleteOne\<close> removes the first document that matches; \<open>deleteMany\<close> all of them.\<close>

fun deleteOne :: "(obj \<Rightarrow> bool) \<Rightarrow> obj list \<Rightarrow> obj list \<times> nat" where
  "deleteOne p [] = ([], 0)"
| "deleteOne p (d # ds) =
     (if p d then (ds, 1)
      else (case deleteOne p ds of (rest, n) \<Rightarrow> (d # rest, n)))"

definition deleteMany :: "(obj \<Rightarrow> bool) \<Rightarrow> obj list \<Rightarrow> obj list \<times> nat" where
  "deleteMany p coll = (filter (\<lambda>d. \<not> p d) coll, length (filter p coll))"

definition delete_log :: "int \<Rightarrow> delete_req \<Rightarrow> nat \<Rightarrow> obj" where
  "delete_log t req n =
     empty_obj(''type'' := JStr ''record_delete'',
               ''targetId'' := JStr (param_id req),
               ''deletedCount'' := JNum (of_nat n),
               ''timestamp'' := JDate t,
               ''ip'' := JStr (delete_ip req))"

definition matches_target :: "string \<Rightarrow> string \<Rightarrow> obj \<Rightarrow> bool" where
  "matches_target oid ident d =
     (d ''_id'' = JOid oid \<or> d ''localId'' = JStr ident \<or> d ''serverId'' = JStr ident)"

definition delete_target ::
  "bool \<Rightarrow> delete_req \<Rightarrow> obj list \<Rightarrow> js_error + (obj list \<times> nat)" where
  "delete_target accept12 req coll =
     (if param_id req = ''batch'' \<and> qtruthy (query_batchId req) then
        Inr (deleteMany (\<lambda>d. Some (d ''batchId'') = map_option JStr (query_batchId req)) coll)
      else if param_id req = ''all'' \<and> qtruthy (query_adminPassword req) then
        Inr (deleteMany (\<lambda>d. True) coll)
      else
        (case ObjectId accept12 (param_id req) of
           None \<Rightarrow> Inl BSONError
         | Some oid \<Rightarrow> Inr (deleteOne (matches_target oid (param_id req)) coll)))"

definition delete_records ::
  "string option \<Rightarrow> bool \<Rightarrow> int \<Rightarrow> store \<Rightarrow> delete_req \<Rightarrow> store \<times> response" where
  "delete_records env_ADMIN_PASSWORD accept12 t st req =
     (if query_adminPassword req = Some (adminPassword env_ADMIN_PASSWORD) then
        (case delete_target accept12 req (records st) of
           Inl e \<Rightarrow> (st, ServerError e)
         | Inr (coll, deletedCount) \<Rightarrow>
             (st\<lparr>records := coll,
                 logs := insertOne (logs st) (delete_log t req deletedCount)\<rparr>,
              DeleteOk deletedCount))
      else (st, Unauthorized))"

section \<open>Listing: \<open>GET /api/records\<close>\<close>

record list_req =
  q_page :: "string option"
  q_limit :: "string option"
  q_sortBy :: "string option"
  q_sortOrder :: "string option"
  q_search :: "string option"
  q_project :: "string option"
  q_payment :: "string option"
  q_startDate :: "string option"
  q_endDate :: "string option"

text \<open>
  Library functions the handler calls, taken as parameters: \<open>parseInt\<close> of a string
  (\<open>None\<close> is \<open>NaN\<close>), the store's case-insensitive \<open>$regex\<close> test of a pattern
  against a string, and the instant \<open>new Date(s)\<close> sends to the store.
\<close>

record query_lib =
  parseInt :: "string \<Rightarrow> int option"
  regexTest :: "string \<Rightarrow> string \<Rightarrow> bool"
  dateOfString :: "string \<Rightarrow> int"

text \<open>A destructuring default applies when the parameter is absent.\<close>

definition with_default :: "string \<Rightarrow> string option \<Rightarrow> string" where
  "with_default dflt q = (case q of None \<Rightarrow> dflt | Some s \<Rightarrow> s)"

definition int_param :: "query_lib \<Rightarrow> int \<Rightarrow> string option \<Rightarrow> int option" where
  "int_param lib dflt q = (case q of None \<Rightarrow> Some dflt | Some s \<Rightarrow> parseInt lib s)"

text \<open>The \<open>query\<close> object built from the parameters.\<close>

record query =
  or_regex :: "string option"
  eq_project :: "string option"
  eq_payment :: "string option"
  has_submittedAt :: bool
  gte_submittedAt :: "int option"
  lte_submittedAt :: "int option"

definition nonempty :: "string \<Rightarrow> string option" where
  "nonempty s = (if s = [] then None else Some s)"

definition build_query :: "query_lib \<Rightarrow> list_req \<Rightarrow> query" where
  "build_query lib req =
     (let search = with_default [] (q_search req);
          project = with_default [] (q_project req);
          payment = with_default [] (q_payment req);
          startDate = with_default [] (q_startDate req);
          endDate = with_default [] (q_endDate req)
      in \<lparr> or_regex = nonempty search,
           eq_project = nonempty project,
           eq_payment = nonempty payment,
           has_submittedAt = (if startDate = [] \<and> endDate = [] then False else True),
           gte_submittedAt = map_option (dateOfString lib) (nonempty startDate),
           lte_submittedAt = map_option (dateOfString lib) (nonempty endDate) \<rparr>)"

definition regex_field :: "query_lib \<Rightarrow> string \<Rightarrow> jsval \<Rightarrow> bool" where
  "regex_field lib pat v = (case v of JStr s \<Rightarrow> regexTest lib pat s | other \<Rightarrow> False)"

definition date_ge :: "int \<Rightarrow> jsval \<Rightarrow> bool" where
  "date_ge bound v = (case v of JDate t \<Rightarrow> bound \<le> t | other \<Rightarrow> False)"

definition date_le :: "int \<Rightarrow> jsval \<Rightarrow> bool" where
  "date_le bound v = (case v of JDate t \<Rightarrow> t \<le> bound | other \<Rightarrow> False)"

definition matches :: "query_lib \<Rightarrow> query \<Rightarrow> obj \<Rightarrow> bool" where
  "matches lib q d =
     ((case or_regex q of
         None \<Rightarrow> True
       | Some pat \<Rightarrow> regex_field lib pat (d ''name'') \<or> regex_field lib pat (d ''contact'')
                     \<or> regex_field lib pat (d ''content''))
      \<and> (case eq_project q of None \<Rightarrow> True | Some p \<Rightarrow> d ''project'' = JStr p)
      \<and> (case eq_payment q of None \<Rightarrow> True | Some p \<Rightarrow> d ''payment'' = JStr p)
      \<and> (case gte_submittedAt q of None \<Rightarrow> True | Some b \<Rightarrow> date_ge b (d ''submittedAt''))
      \<and> (case lte_submittedAt q of None \<Rightarrow> True | Some b \<Rightarrow> date_le b (d ''submittedAt'')))"

text \<open>
  The store orders values of different kinds by kind (null and absent first, then numbers,
  strings, ObjectIds, booleans, dates) and values of one kind by their content, strings
  byte by byte.
\<close>

fun bson_key :: "jsval \<Rightarrow> nat \<times> rat \<times> string" where
  "bson_key JUndef = (0, 0, [])"
| "bson_key JNull = (0, 0, [])"
| "bson_key (JNum n) = (1, n, [])"
| "bson_key (JStr s) = (2, 0, s)"
| "bson_key (JOid h) = (3, 0, h)"
| "bson_key (JBool b) = (4, (if b then 1 else 0), [])"
| "bson_key (JDate t) = (5, of_int t, [])"

datatype direction = Ascending | Descending

text \<open>\<open>sortOrder === 'desc' ? -1 : 1\<close>, after the default \<open>'desc'\<close>.\<close>

definition sort_direction :: "string option \<Rightarrow> direction" where
  "sort_direction q_so =
     (if with_default ''desc'' q_so = ''desc'' then Descending else Ascending)"

text \<open>
  \<open>.sort({ [sortBy]: direction })\<close>. The store does not fix the order of documents with
  equal keys; the model keeps them in insertion order when ascending.
\<close>

definition sort_docs :: "string \<Rightarrow> direction \<Rightarrow> obj list \<Rightarrow> obj list" where
  "sort_docs field dir docs =
     (case dir of
        Ascending \<Rightarrow> sort_key (\<lambda>d. bson_key (d field)) docs
      | Descending \<Rightarrow> rev (sort_key (\<lambda>d. bson_key (d field)) docs))"

text \<open>
  \<open>.skip(skip).limit(limit)\<close>: the store refuses a skip that is negative or not a number
  and a limit that is not a number; a limit of zero is no limit, a negative limit counts
  as its absolute value.
\<close>

definition skip_limit :: "int option \<Rightarrow> int option \<Rightarrow> obj list \<Rightarrow> js_error + obj list" where
  "skip_limit skip lmt docs =
     (case (skip, lmt) of
        (Some s, Some l) \<Rightarrow>
          (if s < 0 then Inl StoreError
           else if l = 0 then Inr (drop (nat s) docs)
           else Inr (take (nat \<bar>l\<bar>) (drop (nat s) docs)))
      | other \<Rightarrow> Inl StoreError)"

record stats =
  totalAmountTWD :: rat
  totalAmountRMB :: rat
  count :: nat

text \<open>\<open>$sum\<close> adds the numeric values of a field and passes over every other value.\<close>

definition numeric :: "jsval \<Rightarrow> rat" where
  "numeric v = (case v of JNum n \<Rightarrow> n | other \<Rightarrow> 0)"

definition accumulate :: "stats \<Rightarrow> obj \<Rightarrow> stats" where
  "accumulate acc d =
     \<lparr> totalAmountTWD = totalAmountTWD acc + numeric (d ''amountTWD''),
       totalAmountRMB = totalAmountRMB acc + numeric (d ''amountRMB''),
       count = count acc + 1 \<rparr>"

definition zero_stats :: stats where
  "zero_stats = \<lparr> totalAmountTWD = 0, totalAmountRMB = 0, count = 0 \<rparr>"

text \<open>
  The pipeline \<open>[{ $match: query }, { $group: { _id: null, ... } }]\<close>: one group when some
  document matches, no group at all otherwise.
\<close>

definition aggregate_stats :: "query_lib \<Rightarrow> query \<Rightarrow> obj list \<Rightarrow> stats list" where
  "aggregate_stats lib q coll =
     (case filter (matches lib q) coll of
        [] \<Rightarrow> []
      | d # ds \<Rightarrow> [foldl accumulate zero_stats (d # ds)])"

definition countDocuments :: "query_lib \<Rightarrow> query \<Rightarrow> obj list \<Rightarrow> nat" where
  "countDocuments lib q coll = length (filter (matches lib q) coll)"

text \<open>
  \<open>Math.ceil(totalCount / parseInt(limit))\<close>; a quotient that is infinite or not a number
  is \<open>null\<close> in the JSON response.
\<close>

definition total_pages :: "nat \<Rightarrow> int option \<Rightarrow> jsval" where
  "total_pages totalCount lmt =
     (case lmt of
        None \<Rightarrow> JNull
      | Some l \<Rightarrow> (if l = 0 then JNull
                   else JNum (of_int \<lceil>(of_nat totalCount :: rat) / of_int l\<rceil>)))"

record pagination =
  page :: "int option"
  limit :: "int option"
  totalCount :: nat
  totalPages :: jsval

record list_body =
  list_data :: "obj list"
  list_pagination :: pagination
  list_stats :: stats

definition get_records :: "query_lib \<Rightarrow> store \<Rightarrow> list_req \<Rightarrow> js_error + list_body" where
  "get_records lib st req =
     (let pg = int_param lib 1 (q_page req);
          lm = int_param lib 50 (q_limit req);
          sortBy = with_default ''submittedAt'' (q_sortBy req);
          skip = (case (pg, lm) of (Some p, Some l) \<Rightarrow> Some ((p - 1) * l) | other \<Rightarrow> None);
          query = build_query lib req
      in case skip_limit skip lm
                (sort_docs sortBy (sort_direction (q_sortOrder req))
                   (filter (matches lib query) (records st))) of
           Inl e \<Rightarrow> Inl e
         | Inr found \<Rightarrow>
             (let total = countDocuments lib query (records st);
                  stats = aggregate_stats lib query (records st)
              in Inr \<lparr> list_data = found,
                       list_pagination =
                         \<lparr> page = pg, limit = lm, totalCount = total,
                           totalPages = total_pages total lm \<rparr>,
                       list_stats = (case stats of [] \<Rightarrow> zero_stats | s # rest \<Rightarrow> s) \<rparr>))"

section \<open>Export: \<open>GET /api/export/csv\<close>\<close>

text \<open>
  Number and date formatting of the language, taken as parameters: \<open>String(n)\<close>,
  \<open>n.toFixed(2)\<close>, \<open>toISOString()\<close> and \<open>String(date)\<close> of an instant, and the
  instant \<open>new Date(v)\<close> makes of a value that is not a date (\<open>None\<close> is an invalid
  date, on which \<open>toISOString\<close> throws).
\<close>

record format_lib =
  numToString :: "rat \<Rightarrow> string"
  toFixed2 :: "rat \<Rightarrow> string"
  toISOString :: "int \<Rightarrow> string"
  dateToString :: "int \<Rightarrow> string"
  dateOfValue :: "jsval \<Rightarrow> int option"

fun to_string :: "format_lib \<Rightarrow> jsval \<Rightarrow> string" where
  "to_string lib JUndef = ''undefined''"
| "to_string lib JNull = ''null''"
| "to_string lib (JBool b) = (if b then ''true'' else ''false'')"
| "to_string lib (JNum n) = numToString lib n"
| "to_string lib (JStr s) = s"
| "to_string lib (JDate t) = dateToString lib t"
| "to_string lib (JOid h) = h"

definition headers :: "string list" where
  "headers =
    [[CHR 0xE5, CHR 0xBA, CHR 0x8F, CHR 0xE5, CHR 0x8F, CHR 0xB7],
     [CHR 0xE5, CHR 0xA7, CHR 0x93, CHR 0xE5, CHR 0x90, CHR 0x8D],
     [CHR 0xE6, CHR 0x8A, CHR 0xA4, CHR 0xE6, CHR 0x8C, CHR 0x81, CHR 0xE9, CHR 0xA1, CHR 0xB9,
      CHR 0xE7, CHR 0x9B, CHR 0xAE],
     [CHR 0xE8, CHR 0xB6, CHR 0x85, CHR 0xE8, CHR 0x8D, CHR 0x90, CHR 0xE6, CHR 0x96, CHR 0xB9,
      CHR 0xE5, CHR 0xBC, CHR 0x8F],
     [CHR 0xE6, CHR 0x8A, CHR 0xA4, CHR 0xE6, CHR 0x8C, CHR 0x81, CHR 0xE9, CHR 0x87, CHR 0x91,
      CHR 0xE9, CHR 0xA2, CHR 0x9D, CHR ''('', CHR 0xE6, CHR 0x96, CHR 0xB0, CHR 0xE5, CHR 0x8F,
      CHR 0xB0, CHR 0xE5, CHR 0xB8, CHR 0x81, CHR '')''],
     [CHR 0xE6, CHR 0x8A, CHR 0xA4, CHR 0xE6, CHR 0x8C, CHR 0x81, CHR 0xE9, CHR 0x87, CHR 0x91,
      CHR 0xE9, CHR 0xA2, CHR 0x9D, CHR ''('', CHR 0xE4, CHR 0xBA, CHR 0xBA, CHR 0xE6, CHR 0xB0,
      CHR 0x91, CHR 0xE5, CHR 0xB8, CHR 0x81, CHR '')''],
     [CHR 0xE8, CHR 0xB6, CHR 0x85, CHR 0xE8, CHR 0x8D, CHR 0x90, CHR 0xE5, CHR 0x86, CHR 0x85,
      CHR 0xE5, CHR 0xAE, CHR 0xB9],
     [CHR 0xE6, CHR 0x98, CHR 0xAF, CHR 0xE5, CHR 0x90, CHR 0xA6, CHR 0xE7, CHR 0xBC, CHR 0xB4,
      CHR 0xE8, CHR 0xB4, CHR 0xB9],
     [CHR 0xE8, CHR 0x81, CHR 0x94, CHR 0xE7, CHR 0xB3, CHR 0xBB, CHR 0xE4, CHR 0xBA, CHR 0xBA],
     [CHR 0xE6, CHR 0x8F, CHR 0x90, CHR 0xE4, CHR 0xBA, CHR 0xA4, CHR 0xE6, CHR 0x97, CHR 0xB6,
      CHR 0xE9, CHR 0x97, CHR 0xB4],
     [CHR 0xE8, CHR 0xAE, CHR 0xBE, CHR 0xE5, CHR 0xA4, CHR 0x87, CHR ''I'', CHR ''D''],
     [CHR 0xE6, CHR 0x89, CHR 0xB9, CHR 0xE6, CHR 0xAC, CHR 0xA1, CHR ''I'', CHR ''D''],
     [CHR 0xE6, CHR 0x9C, CHR 0xAC, CHR 0xE5, CHR 0x9C, CHR 0xB0, CHR ''I'', CHR ''D'']]"

text \<open>The byte-order mark \<open>U+FEFF\<close> in UTF-8.\<close>

definition BOM :: string where
  "BOM = [CHR 0xEF, CHR 0xBB, CHR 0xBF]"

text \<open>\<open>Array.prototype.join\<close> on an array of strings.\<close>

fun join :: "string \<Rightarrow> string list \<Rightarrow> string" where
  "join sep [] = []"
| "join sep [x] = x"
| "join sep (x # y # ys) = x @ sep @ join sep (y # ys)"

text \<open>\<open>.replace(/"/g, '""')\<close> and \<open>.replace(/\n/g, '; ')\<close>\<close>

definition double_quotes :: "string \<Rightarrow> string" where
  "double_quotes s = concat (map (\<lambda>c. if c = CHR 0x22 then [CHR 0x22, CHR 0x22] else [c]) s)"

definition newlines_to_semicolons :: "string \<Rightarrow> string" where
  "newlines_to_semicolons s = concat (map (\<lambda>c. if c = CHR 0x0A then ''; '' else [c]) s)"

definition quoted :: "string \<Rightarrow> string" where
  "quoted s = [CHR 0x22] @ s @ [CHR 0x22]"

text \<open>A template literal around \<open>item.f || ''\<close>.\<close>

definition quoted_field :: "format_lib \<Rightarrow> jsval \<Rightarrow> string" where
  "quoted_field lib v = quoted (to_string lib (js_or v (JStr [])))"

text \<open>
  \<open>(item.f || '').replace(...)\<close>: a truthy value that is not a string has no
  \<open>replace\<close> method, and the call throws.
\<close>

definition text_or_empty :: "jsval \<Rightarrow> js_error + string" where
  "text_or_empty v = (case js_or v (JStr []) of JStr s \<Rightarrow> Inr s | other \<Rightarrow> Inl TypeError)"

text \<open>\<open>item.amountTWD || 0\<close>, printed by \<open>join\<close>.\<close>

definition raw_amount :: "format_lib \<Rightarrow> jsval \<Rightarrow> string" where
  "raw_amount lib v = (if truthy v then to_string lib v else ''0'')"

text \<open>\<open>item.amountRMB ? item.amountRMB.toFixed(2) : 0\<close>: only numbers have \<open>toFixed\<close>.\<close>

definition fixed_amount :: "format_lib \<Rightarrow> jsval \<Rightarrow> js_error + string" where
  "fixed_amount lib v =
     (if truthy v then (case v of JNum n \<Rightarrow> Inr (toFixed2 lib n) | other \<Rightarrow> Inl TypeError)
      else Inr ''0'')"

text \<open>\<open>item.submittedAt ? new Date(item.submittedAt).toISOString() : ''\<close>\<close>

definition iso_instant :: "format_lib \<Rightarrow> jsval \<Rightarrow> js_error + string" where
  "iso_instant lib v =
     (if truthy v then
        (case v of
           JDate t \<Rightarrow> Inr (toISOString lib t)
         | other \<Rightarrow> (case dateOfValue lib other of
                       None \<Rightarrow> Inl RangeError
                     | Some t \<Rightarrow> Inr (toISOString lib t)))
      else Inr [])"

definition csv_row :: "format_lib \<Rightarrow> nat \<Rightarrow> obj \<Rightarrow> js_error + string list" where
  "csv_row lib index item =
     (case text_or_empty (item ''method'') of
        Inl e \<Rightarrow> Inl e
      | Inr method \<Rightarrow>
     (case fixed_amount lib (item ''amountRMB'') of
        Inl e \<Rightarrow> Inl e
      | Inr amountRMB \<Rightarrow>
     (case text_or_empty (item ''content'') of
        Inl e \<Rightarrow> Inl e
      | Inr content \<Rightarrow>
     (case iso_instant lib (item ''submittedAt'') of
        Inl e \<Rightarrow> Inl e
      | Inr submittedAt \<Rightarrow>
          Inr [decimal (index + 1),
               quoted_field lib (item ''name''),
               quoted_field lib (item ''project''),
               quoted (newlines_to_semicolons (double_quotes method)),
               raw_amount lib (item ''amountTWD''),
               amountRMB,
               quoted (double_quotes content),
               quoted_field lib (item ''payment''),
               quoted_field lib (item ''contact''),
               submittedAt,
               quoted_field lib (item ''deviceId''),
               quoted_field lib (item ''batchId''),
               quoted_field lib (item ''localId'')]))))"

text \<open>\<open>records.forEach((item, index) => { ... csvContent += row.join(',') + '\n' })\<close>\<close>

fun append_rows :: "format_lib \<Rightarrow> nat \<Rightarrow> obj list \<Rightarrow> string \<Rightarrow> js_error + string" where
  "append_rows lib index [] csvContent = Inr csvContent"
| "append_rows lib index (item # rest) csvContent =
     (case csv_row lib index item of
        Inl e \<Rightarrow> Inl e
      | Inr row \<Rightarrow> append_rows lib (Suc index) rest (csvContent @ join '','' row @ [CHR 0x0A]))"

definition export_csv :: "format_lib \<Rightarrow> store \<Rightarrow> js_error + string" where
  "export_csv lib st =
     (let found = sort_docs ''submittedAt'' Descending (records st);
          csvContent = BOM @ join '','' headers @ [CHR 0x0A]
      in append_rows lib 0 found csvContent)"

subsection \<open>A standard CSV reader\<close>

text \<open>
  The reader against which the export is measured, after RFC 4180: fields are separated
  by commas and records by line feeds; inside double quotes commas and line feeds belong
  to the field, and a doubled double quote stands for one. The arguments are: whether the
  reader is inside quotes, the field and the record read so far, and the input left.
\<close>

fun csv_read :: "bool \<Rightarrow> string \<Rightarrow> string list \<Rightarrow> string \<Rightarrow> string list list" where
  "csv_read inq field row [] = (if field = [] \<and> row = [] then [] else [row @ [field]])"
| "csv_read True field row (c # cs) =
     (if c = CHR 0x22 then
        (case cs of
           [] \<Rightarrow> csv_read False field row cs
         | c' # cs' \<Rightarrow>
             (if c' = CHR 0x22 then csv_read True (field @ [CHR 0x22]) row cs'
              else csv_read False field row cs))
      else csv_read True (field @ [c]) row cs)"
| "csv_read False field row (c # cs) =
     (if c = CHR '','' then csv_read False [] (row @ [field]) cs
      else if c = CHR 0x0A then (row @ [field]) # csv_read False [] [] cs
      else if c = CHR 0x22 then csv_read True field row cs
      else csv_read False (field @ [c]) row cs)"

definition csv_parse :: "string \<Rightarrow> string list list" where
  "csv_parse doc = csv_read False [] [] doc"

subsection \<open>The row in the order the specification lists the columns\<close>

text \<open>
  The specification's sentence on the export lists content, payment status and contact
  before the two amounts. This is the row in that order, for comparison with \<open>csv_row\<close>.
\<close>

definition spec_row :: "format_lib \<Rightarrow> nat \<Rightarrow> obj \<Rightarrow> js_error + string list" where
  "spec_row lib index item =
     (case text_or_empty (item ''method'') of
        Inl e \<Rightarrow> Inl e
      | Inr method \<Rightarrow>
     (case text_or_empty (item ''content'') of
        Inl e \<Rightarrow> Inl e
      | Inr content \<Rightarrow>
     (case fixed_amount lib (item ''amountRMB'') of
        Inl e \<Rightarrow> Inl e
      | Inr amountRMB \<Rightarrow>
     (case iso_instant lib (item ''submittedAt'') of
        Inl e \<Rightarrow> Inl e
      | Inr submittedAt \<Rightarrow>
          Inr [decimal (index + 1),
               quoted_field lib (item ''name''),
               quoted_field lib (item ''project''),
               quoted (newlines_to_semicolons (double_quotes method)),
               quoted (double_quotes content),
               quoted_field lib (item ''payment''),
               quoted_field lib (item ''contact''),
               raw_amount lib (item ''amountTWD''),
               amountRMB,
               submittedAt,
               quoted_field lib (item ''deviceId''),
               quoted_field lib (item ''batchId''),
               quoted_field lib (item ''localId'')]))))"

subsection \<open>The cells of the columns that can throw\<close>

text \<open>
  When the row of a record is built without an exception, the cells of \<open>method\<close> and
  \<open>content\<close>, of \<open>amountRMB\<close> and of \<open>submittedAt\<close> are the following: the text of
  the field, or the empty string when the field is absent or otherwise falsy;
  \<open>toFixed(2)\<close> of the amount, or \<open>0\<close> when the field is absent, zero or otherwise
  falsy; \<open>toISOString()\<close> of the instant, or the empty string when the field is absent
  or otherwise falsy.
\<close>

definition text_of :: "jsval \<Rightarrow> string" where
  "text_of v = (case v of JStr s \<Rightarrow> s | other \<Rightarrow> [])"

definition two_decimals :: "format_lib \<Rightarrow> jsval \<Rightarrow> string" where
  "two_decimals lib v =
     (case v of JNum n \<Rightarrow> (if n = 0 then ''0'' else toFixed2 lib n) | other \<Rightarrow> ''0'')"

definition instant_of :: "format_lib \<Rightarrow> jsval \<Rightarrow> string" where
  "instant_of lib v =
     (case v of
        JDate t \<Rightarrow> toISOString lib t
      | other \<Rightarrow>
          (if truthy other then
             (case dateOfValue lib other of None \<Rightarrow> [] | Some t \<Rightarrow> toISOString lib t)
           else []))"

section \<open>Concrete surroundings for the examples\<close>

definition example_runtime :: runtime where
  "example_runtime =
     \<lparr> dateNow = (\<lambda>i. 1700000000000),
       newDate = (\<lambda>i k. 1700000000000),
       newObjectId = (\<lambda>i. ''65a1b2c3d4e5f6a7b8c9d0e'' @ decimal (i mod 10)),
       driverId = (\<lambda>i. ''75a1b2c3d4e5f6a7b8c9d0e'' @ decimal (i mod 10)),
       logDate = 1700000000001 \<rparr>"

definition empty_store :: store where
  "empty_store = \<lparr> records = [], logs = [] \<rparr>"

definition example_parse :: "string \<Rightarrow> rat option" where
  "example_parse s = (if s = ''100'' then Some 100 else None)"

definition example_format_lib :: format_lib where
  "example_format_lib =
     \<lparr> numToString = (\<lambda>n. if n = 100 then ''100'' else ''7''),
       toFixed2 = (\<lambda>n. if n = 25 then ''25.00'' else ''7.00''),
       toISOString = (\<lambda>t. ''2023-11-14T22:13:20.000Z''),
       dateToString = (\<lambda>t. ''Tue Nov 14 2023''),
       dateOfValue = (\<lambda>v. None) \<rparr>"

definition example_query_lib :: query_lib where
  "example_query_lib =
     \<lparr> parseInt = (\<lambda>s. if s = ''2'' then Some 2 else None),
       regexTest = (\<lambda>pat s. if pat = s then True else False),
       dateOfString = (\<lambda>s. 0) \<rparr>"

definition duplicate_batch :: submit_req where
  "duplicate_batch =
     \<lparr> body_data = Some [empty_obj(''name'' := JStr ''A'', ''localId'' := JStr ''a''),
                         empty_obj(''name'' := JStr ''B'', ''localId'' := JStr ''a'')],
       body_batchId = JStr ''B1'',
       body_deviceId = JStr ''D1'',
       req_ip = ''10.0.0.1'',
       body_size = 80 \<rparr>"

definition no_localId_batch :: submit_req where
  "no_localId_batch =
     \<lparr> body_data = Some [empty_obj(''name'' := JStr ''A''), empty_obj(''name'' := JStr ''B'')],
       body_batchId = JStr ''B1'',
       body_deviceId = JStr ''D1'',
       req_ip = ''10.0.0.1'',
       body_size = 40 \<rparr>"

definition missing_amount_batch :: submit_req where
  "missing_amount_batch =
     \<lparr> body_data = Some [empty_obj(''name'' := JStr ''A'')],
       body_batchId = JStr ''B1'',
       body_deviceId = JStr ''D1'',
       req_ip = ''10.0.0.1'',
       body_size = 40 \<rparr>"

definition text_amount_batch :: submit_req where
  "text_amount_batch =
     \<lparr> body_data = Some [empty_obj(''name'' := JStr ''A'', ''amountTWD'' := JStr ''100'')],
       body_batchId = JStr ''B1'',
       body_deviceId = JStr ''D1'',
       req_ip = ''10.0.0.1'',
       body_size = 40 \<rparr>"

definition anonymous_batch :: submit_req where
  "anonymous_batch =
     \<lparr> body_data = Some [empty_obj(''name'' := JStr ''A'')],
       body_batchId = JUndef,
       body_deviceId = JUndef,
       req_ip = ''10.0.0.1'',
       body_size = 40 \<rparr>"

text \<open>No two documents of a collection that carry a \<open>localId\<close> carry the same one.\<close>

definition distinct_localIds :: "obj list \<Rightarrow> bool" where
  "distinct_localIds coll =
     distinct (filter (\<lambda>v. v \<noteq> JUndef) (map (\<lambda>d. d ''localId'') coll))"

definition one_record_store :: store where
  "one_record_store =
     \<lparr> records = [empty_obj(''_id'' := JOid ''75a1b2c3d4e5f6a7b8c9d0e0'',
                              ''name'' := JStr ''A'',
                              ''localId'' := JStr ''local_1'',
                              ''serverId'' := JStr ''65a1b2c3d4e5f6a7b8c9d0e0'',
                              ''batchId'' := JStr ''B1'')],
       logs = [] \<rparr>"

definition delete_nonexistent :: delete_req where
  "delete_nonexistent =
     \<lparr> param_id = ''nonexistent'',
       query_batchId = None,
       query_adminPassword = Some ''admin123'',
       delete_ip = ''10.0.0.1'' \<rparr>"

definition delete_all_wrong_password :: delete_req where
  "delete_all_wrong_password =
     \<lparr> param_id = ''all'',
       query_batchId = None,
       query_adminPassword = Some ''wrong'',
       delete_ip = ''10.0.0.1'' \<rparr>"

definition three_record_store :: store where
  "three_record_store =
     \<lparr> records =
         [empty_obj(''name'' := JStr ''A'', ''project'' := JStr ''X'',
                    ''amountTWD'' := JNum 100, ''amountRMB'' := JNum 25,
                    ''submittedAt'' := JDate 3),
          empty_obj(''name'' := JStr ''B'', ''project'' := JStr ''Y'',
                    ''amountTWD'' := JNum 1000, ''amountRMB'' := JNum 250,
                    ''submittedAt'' := JDate 1),
          empty_obj(''name'' := JStr ''C'', ''project'' := JStr ''X'',
                    ''amountTWD'' := JNum 200, ''amountRMB'' := JNum 50,
                    ''submittedAt'' := JDate 2),
          empty_obj(''name'' := JStr ''D'', ''project'' := JStr ''X'',
                    ''amountTWD'' := JNum 300, ''amountRMB'' := JNum 75,
                    ''submittedAt'' := JDate 4)],
       logs = [] \<rparr>"

definition list_project_X :: list_req where
  "list_project_X =
     \<lparr> q_page = None, q_limit = Some ''2'', q_sortBy = None, q_sortOrder = Some ''DESC'',
       q_search = None, q_project = Some ''X'', q_payment = None,
       q_startDate = None, q_endDate = None \<rparr>"

definition example_record :: obj where
  "example_record =
     empty_obj(''name'' := JStr ''A'', ''project'' := JStr ''X'', ''method'' := JStr ''m'',
               ''content'' := JStr ''c'', ''payment'' := JStr ''paid'',
               ''contact'' := JStr ''T'', ''amountTWD'' := JNum 100,
               ''amountRMB'' := JNum 25, ''submittedAt'' := JDate 1700000000000,
               ''deviceId'' := JStr ''D1'', ''batchId'' := JStr ''B1'',
               ''localId'' := JStr ''L1'')"

definition quote_in_name_store :: store where
  "quote_in_name_store =
     \<lparr> records = [example_record(''name'' := JStr [CHR ''A'', CHR 0x22, CHR '','', CHR 0x22, CHR ''B''])],
       logs = [] \<rparr>"

definition one_row_store :: store where
  "one_row_store = \<lparr> records = [example_record], logs = [] \<rparr>"

section \<open>The ordered bulk write\<close>

declare decimal.simps [simp del]

lemmas submit_defs =
  post_records_parse_def post_records_plain_def post_records_number_def
  insertMany_def insertOne_def with_metadata_parse_def with_metadata_number_def
  with_metadata_def coerce_amount_def assign_id_def dup_localId_def index_key_def
  js_or_def num_or_zero_def empty_obj_def error_message_def Let_def

lemma insert_loop_all:
  "insert_loop sparse coll ds n = (coll', None) \<Longrightarrow> coll' = coll @ ds"
proof (induction ds arbitrary: coll n)
  case Nil
  then show ?case by simp
next
  case (Cons d ds)
  from Cons.prems have nd: "\<not> dup_localId sparse coll d"
    by (auto split: if_splits)
  with Cons.prems have "insert_loop sparse (coll @ [d]) ds (Suc n) = (coll', None)"
    by simp
  from Cons.IH [OF this] show ?case by simp
qed

lemma insert_loop_stop:
  "insert_loop sparse coll ds n = (coll', Some k) \<Longrightarrow>
     n \<le> k \<and> k - n < length ds \<and> coll' = coll @ take (k - n) ds
     \<and> dup_localId sparse coll' (ds ! (k - n))"
proof (induction ds arbitrary: coll n)
  case Nil
  then show ?case by simp
next
  case (Cons d ds)
  show ?case
  proof (cases "dup_localId sparse coll d")
    case True
    with Cons.prems show ?thesis by simp
  next
    case False
    with Cons.prems have rec: "insert_loop sparse (coll @ [d]) ds (Suc n) = (coll', Some k)"
      by simp
    from Cons.IH [OF rec] have
      a: "Suc n \<le> k" and b: "k - Suc n < length ds"
      and c: "coll' = (coll @ [d]) @ take (k - Suc n) ds"
      and e: "dup_localId sparse coll' (ds ! (k - Suc n))"
      by auto
    from a obtain j where j: "k - n = Suc j" "k - Suc n = j"
      by (metis Suc_diff_le diff_Suc_Suc)
    with a b c e show ?thesis by simp
  qed
qed

lemma insert_loop_clean:
  "insert_loop sparse coll ds n = (coll', None) \<Longrightarrow> i < length ds \<Longrightarrow>
     \<not> dup_localId sparse (coll @ take i ds) (ds ! i)"
proof (induction ds arbitrary: coll n i)
  case Nil
  then show ?case by simp
next
  case (Cons d ds)
  from Cons.prems(1) have nd: "\<not> dup_localId sparse coll d"
    by (auto split: if_splits)
  with Cons.prems(1) have rec: "insert_loop sparse (coll @ [d]) ds (Suc n) = (coll', None)"
    by simp
  show ?case
  proof (cases i)
    case 0
    with nd show ?thesis by simp
  next
    case (Suc j)
    with Cons.prems(2) have "j < length ds" by simp
    from Cons.IH [OF rec this] Suc show ?thesis by simp
  qed
qed

lemma insert_loop_first:
  "insert_loop sparse coll ds n = (coll', Some k) \<Longrightarrow> i < k - n \<Longrightarrow>
     \<not> dup_localId sparse (coll @ take i ds) (ds ! i)"
proof (induction ds arbitrary: coll n i)
  case Nil
  then show ?case by simp
next
  case (Cons d ds)
  show ?case
  proof (cases "dup_localId sparse coll d")
    case True
    with Cons.prems show ?thesis by simp
  next
    case False
    with Cons.prems(1) have rec: "insert_loop sparse (coll @ [d]) ds (Suc n) = (coll', Some k)"
      by simp
    show ?thesis
    proof (cases i)
      case 0
      with False show ?thesis by simp
    next
      case (Suc j)
      with Cons.prems(2) have "j < k - Suc n" by simp
      from Cons.IH [OF rec this] Suc show ?thesis by simp
    qed
  qed
qed

lemma insertMany_ok:
  "insertMany sparse gen coll docs = (coll', Inr n) \<Longrightarrow>
     n = length docs \<and> coll' = coll @ map (assign_id gen) (enumerate 0 docs)"
  by (auto simp: insertMany_def split: if_splits prod.splits option.splits
        dest: insert_loop_all)

text \<open>
  The bulk write fails at the first document that collides, and the documents before it
  are in the collection afterwards.
\<close>

lemma insertMany_first_conflict:
  assumes docs: "docs = map (assign_id gen) (enumerate 0 ds)"
    and i: "i < length docs"
    and dup: "dup_localId sparse (coll @ take i docs) (docs ! i)"
  shows "\<exists>k. k \<le> i \<and> dup_localId sparse (coll @ take k docs) (docs ! k) \<and>
           insertMany sparse gen coll ds = (coll @ take k docs, Inl (DuplicateKey k))"
proof -
  obtain coll' r where run: "insert_loop sparse coll docs 0 = (coll', r)"
    by (cases "insert_loop sparse coll docs 0") auto
  from i docs have ne: "ds \<noteq> []"
    by auto
  show ?thesis
  proof (cases r)
    case None
    with run insert_loop_clean [of sparse coll docs 0 coll' i] i dup
    show ?thesis by simp
  next
    case (Some k)
    from insert_loop_stop [of sparse coll docs 0 coll' k] run Some
    have c: "coll' = coll @ take k docs" and d: "dup_localId sparse coll' (docs ! k)"
      by auto
    have "k \<le> i"
    proof (rule ccontr)
      assume "\<not> k \<le> i"
      then have "i < k - 0" by simp
      from insert_loop_first [OF _ this, of sparse coll docs coll'] run Some dup
      show False by simp
    qed
    moreover have "insertMany sparse gen coll ds = (coll @ take k docs, Inl (DuplicateKey k))"
      using run Some c docs ne by (simp add: insertMany_def)
    ultimately show ?thesis using c d by blast
  qed
qed

section \<open>Ingestion and the unique index\<close>

text \<open>
  C1. The claim says that a batch with an item violating the \<open>localId\<close> index leaves the
  record set unchanged. On the code the bulk write is ordered and not transactional: with
  two items carrying the same \<open>localId\<close> sent to an empty store, the request fails with a
  duplicate-key error at position 1 and the first item stays in the store.
\<close>

theorem partial_commit_counterexample:
  "snd (post_records_parse example_parse sparse_in_server_database_js example_runtime
          empty_store duplicate_batch) = ServerError (DuplicateKey 1)
   \<and> map (\<lambda>d. d ''name'')
         (records (fst (post_records_parse example_parse sparse_in_server_database_js
            example_runtime empty_store duplicate_batch))) = [JStr ''A'']
   \<and> records (fst (post_records_parse example_parse sparse_in_server_database_js
            example_runtime empty_store duplicate_batch)) \<noteq> records empty_store"
  by (simp add: submit_defs duplicate_batch_def empty_store_def example_runtime_def
        sparse_in_server_database_js_def)

text \<open>
  C1, as amended. When some document of the batch collides on the \<open>localId\<close> index with
  the store or with an earlier document of the same batch, the request fails with the
  duplicate-key error of the first such document, at position \<open>k\<close>: the \<open>k\<close> documents
  before it are committed, in order, it and all later ones are not, no
  \<open>record_submit\<close> entry is logged, and one \<open>record_submit_error\<close> entry is.
\<close>

theorem conflicting_batch_commits_prefix:
  assumes items: "body_data req = Some items"
    and docs: "docs = map (assign_id (driverId rt))
                 (enumerate 0 (map (with_metadata_parse pf rt req) (enumerate 0 items)))"
    and i: "i < length docs"
    and dup: "dup_localId sparse (records st @ take i docs) (docs ! i)"
  shows "\<exists>k. k \<le> i \<and> dup_localId sparse (records st @ take k docs) (docs ! k) \<and>
           post_records_parse pf sparse rt st req =
             (st\<lparr>records := records st @ take k docs,
                 logs := logs st @ [submit_error_log rt req (DuplicateKey k)]\<rparr>,
              ServerError (DuplicateKey k))"
proof -
  let ?prepared = "map (with_metadata_parse pf rt req) (enumerate 0 items)"
  from docs have d: "docs = map (assign_id (driverId rt)) (enumerate 0 ?prepared)"
    by simp
  from insertMany_first_conflict [OF d i dup]
  obtain k where k: "k \<le> i" "dup_localId sparse (records st @ take k docs) (docs ! k)"
    and ins: "insertMany sparse (driverId rt) (records st) ?prepared
                = (records st @ take k docs, Inl (DuplicateKey k))"
    by blast
  from items ins have "post_records_parse pf sparse rt st req =
             (st\<lparr>records := records st @ take k docs,
                 logs := logs st @ [submit_error_log rt req (DuplicateKey k)]\<rparr>,
              ServerError (DuplicateKey k))"
    by (simp add: post_records_parse_def insertOne_def Let_def)
  with k show ?thesis by blast
qed

text \<open>
  The handler of \<open>part_000\<close> behaves alike, except that it writes no log entry at all
  on failure.
\<close>

lemma plain_handler_commits_prefix:
  assumes items: "body_data req = Some items"
    and docs: "docs = map (assign_id (driverId rt))
                 (enumerate 0 (map (with_metadata rt req) (enumerate 0 items)))"
    and i: "i < length docs"
    and dup: "dup_localId sparse (records st @ take i docs) (docs ! i)"
  shows "\<exists>k. k \<le> i \<and> dup_localId sparse (records st @ take k docs) (docs ! k) \<and>
           post_records_plain sparse rt st req =
             (st\<lparr>records := records st @ take k docs\<rparr>, ServerError (DuplicateKey k))"
proof -
  let ?prepared = "map (with_metadata rt req) (enumerate 0 items)"
  from docs have d: "docs = map (assign_id (driverId rt)) (enumerate 0 ?prepared)"
    by simp
  from insertMany_first_conflict [OF d i dup]
  obtain k where k: "k \<le> i" "dup_localId sparse (records st @ take k docs) (docs ! k)"
    and ins: "insertMany sparse (driverId rt) (records st) ?prepared
                = (records st @ take k docs, Inl (DuplicateKey k))"
    by blast
  from items ins have "post_records_plain sparse rt st req =
             (st\<lparr>records := records st @ take k docs\<rparr>, ServerError (DuplicateKey k))"
    by (simp add: post_records_plain_def Let_def)
  with k show ?thesis by blast
qed

theorem conflicting_batch_commits_prefix_witness:
  "\<exists>k. k \<le> 1 \<and>
     snd (post_records_parse example_parse sparse_in_server_database_js example_runtime
            empty_store duplicate_batch) = ServerError (DuplicateKey k)"
proof -
  let ?items = "[empty_obj(''name'' := JStr ''A'', ''localId'' := JStr ''a''),
                 empty_obj(''name'' := JStr ''B'', ''localId'' := JStr ''a'')]"
  let ?docs = "map (assign_id (driverId example_runtime))
                 (enumerate 0 (map (with_metadata_parse example_parse example_runtime
                    duplicate_batch) (enumerate 0 ?items)))"
  have a: "body_data duplicate_batch = Some ?items"
    by (simp add: duplicate_batch_def)
  have b: "(1::nat) < length ?docs" by simp
  have c: "dup_localId sparse_in_server_database_js
             (records empty_store @ take 1 ?docs) (?docs ! 1)"
    by (simp add: submit_defs duplicate_batch_def empty_store_def example_runtime_def
          sparse_in_server_database_js_def)
  from conflicting_batch_commits_prefix [OF a refl b c]
  show ?thesis by auto
qed

text \<open>
  C2. The claim holds of the index options \<open>src/server/database.js\<close> writes down and
  fails on the ones \<open>src/database.js\<close> declares, which leave out \<open>sparse: true\<close>: there
  a batch of two
  items without a \<open>localId\<close>, sent to an empty store, fails with a duplicate-key error on
  the second item, both filed under the key \<open>null\<close>.
\<close>

theorem nonsparse_index_rejects_absent_localId:
  "snd (post_records_parse example_parse sparse_in_database_js example_runtime empty_store
          no_localId_batch) = ServerError (DuplicateKey 1)
   \<and> snd (post_records_plain sparse_in_database_js example_runtime empty_store
          no_localId_batch) = ServerError (DuplicateKey 1)"
  by (simp add: submit_defs no_localId_batch_def empty_store_def example_runtime_def
        sparse_in_database_js_def)

text \<open>
  With either index the documents that carry a \<open>localId\<close> stay pairwise different, and
  with the sparse index a batch of one or more items without a \<open>localId\<close> is always
  written whole.
\<close>

lemma with_metadata_parse_localId:
  "with_metadata_parse pf rt req (i, item) ''localId'' = item ''localId''"
  by (simp add: with_metadata_parse_def with_metadata_def coerce_amount_def
        split: jsval.splits)

lemma assign_id_localId: "assign_id gen (i, d) ''localId'' = d ''localId''"
  by (simp add: assign_id_def)

lemma insert_loop_sparse_absent:
  "list_all (\<lambda>d. d ''localId'' = JUndef) ds \<Longrightarrow>
     insert_loop True coll ds n = (coll @ ds, None)"
  by (induction ds arbitrary: coll n) (simp_all add: dup_localId_def index_key_def)

lemma distinct_localIds_snoc:
  "distinct_localIds coll \<Longrightarrow> \<not> dup_localId sparse coll d \<Longrightarrow> distinct_localIds (coll @ [d])"
  by (auto simp: distinct_localIds_def dup_localId_def index_key_def list_ex_iff
      split: if_splits)

lemma insert_loop_distinct:
  "distinct_localIds coll \<Longrightarrow> distinct_localIds (fst (insert_loop sparse coll ds n))"
  by (induction ds arbitrary: coll n) (auto simp: distinct_localIds_snoc)

lemma sparse_index_is_sparse_unique:
  assumes "body_data req = Some items" and "items \<noteq> []"
  shows "(distinct_localIds (records st) \<longrightarrow>
           distinct_localIds (records (fst (post_records_parse pf sparse rt st req))))
       \<and> (list_all (\<lambda>d. d ''localId'' = JUndef) items \<longrightarrow>
           snd (post_records_parse pf sparse_in_server_database_js rt st req)
             = SubmitOk (length items) (body_batchId req))"
proof -
  let ?docs = "map (assign_id (driverId rt))
                 (enumerate 0 (map (with_metadata_parse pf rt req) (enumerate 0 items)))"
  have "distinct_localIds (records st) \<Longrightarrow>
           distinct_localIds (records (fst (post_records_parse pf sparse rt st req)))"
    using assms insert_loop_distinct [of "records st" sparse ?docs 0]
    by (auto simp: post_records_parse_def insertMany_def Let_def
          split: prod.splits option.splits)
  moreover have "list_all (\<lambda>d. d ''localId'' = JUndef) items \<Longrightarrow>
           snd (post_records_parse pf sparse_in_server_database_js rt st req)
             = SubmitOk (length items) (body_batchId req)"
  proof -
    assume "list_all (\<lambda>d. d ''localId'' = JUndef) items"
    then have "list_all (\<lambda>d. d ''localId'' = JUndef) ?docs"
      by (auto simp: list_all_iff enumerate_eq_zip in_set_zip with_metadata_parse_localId
            assign_id_localId)
    moreover from assms(2) have "enumerate 0 items \<noteq> []"
      by (cases items) simp_all
    ultimately show ?thesis
      using insert_loop_sparse_absent [of ?docs "records st" 0] assms
      by (simp add: post_records_parse_def insertMany_def Let_def
            sparse_in_server_database_js_def)
  qed
  ultimately show ?thesis by blast
qed

text \<open>
  C3. The claim says that a stored amount is always a number and that a missing amount
  becomes \<open>0\<close>. The handler of \<open>part_002\<close> lines 421 to 520 converts an amount only when
  it is a string: an item without the amount fields is accepted and stored without
  them. The handler of \<open>part_000\<close> converts nothing: the amount \<open>"100"\<close> is stored as
  text.
\<close>

theorem amounts_left_uncoerced:
  "snd (post_records_parse example_parse sparse_in_server_database_js example_runtime
          empty_store missing_amount_batch) = SubmitOk 1 (JStr ''B1'')
   \<and> map (\<lambda>d. (d ''amountTWD'', d ''amountRMB''))
        (records (fst (post_records_parse example_parse sparse_in_server_database_js
           example_runtime empty_store missing_amount_batch))) = [(JUndef, JUndef)]
   \<and> snd (post_records_plain sparse_in_server_database_js example_runtime empty_store
          text_amount_batch) = SubmitOk 1 (JStr ''B1'')
   \<and> map (\<lambda>d. d ''amountTWD'')
        (records (fst (post_records_plain sparse_in_server_database_js example_runtime
           empty_store text_amount_batch))) = [JStr ''100'']"
  by (simp add: submit_defs missing_amount_batch_def text_amount_batch_def empty_store_def
        example_runtime_def sparse_in_server_database_js_def)

text \<open>
  The first handler of \<open>part_002\<close> (lines 44 to 109) does what the claim says: whatever
  the item carries, both stored amounts are numbers.
\<close>

lemma number_variant_stores_numbers:
  assumes "body_data req = Some items"
    and "post_records_number sn sparse rt st req = (st', SubmitOk n b)"
    and "i < length items"
  shows "is_number ((records st' ! (length (records st) + i)) ''amountTWD'')
       \<and> is_number ((records st' ! (length (records st) + i)) ''amountRMB'')"
proof -
  let ?docs = "map (with_metadata_number sn rt req) (enumerate 0 items)"
  from assms(1,2) obtain coll where
    ins: "insertMany sparse (driverId rt) (records st) ?docs = (coll, Inr n)"
    and st': "records st' = coll"
    by (auto simp: post_records_number_def Let_def split: prod.splits sum.splits)
  from insertMany_ok [OF ins] st'
  have "records st' = records st @ map (assign_id (driverId rt)) (enumerate 0 ?docs)"
    by simp
  with assms(3) show ?thesis
    by (simp add: nth_append nth_enumerate_eq assign_id_def with_metadata_number_def
          with_metadata_def num_or_zero_def split: option.splits)
qed

text \<open>
  C9. The claim says that the response carries the resolved batch identifier. On the code
  the response carries \<open>batchId\<close> as the request sent it: for a request without a
  \<open>batchId\<close> the record is stamped \<open>batch_1700000000000\<close> and the response carries no
  batch identifier at all.
\<close>

theorem response_echoes_absent_batchId_counterexample:
  "snd (post_records_plain sparse_in_server_database_js example_runtime empty_store
          anonymous_batch)
     = SubmitOk 1 JUndef
   \<and> map (\<lambda>d. d ''batchId'')
        (records (fst (post_records_plain sparse_in_server_database_js example_runtime
           empty_store anonymous_batch)))
     = [JStr ''batch_1700000000000'']"
  by (simp add: submit_defs anonymous_batch_def empty_store_def example_runtime_def
        decimal.simps sparse_in_server_database_js_def)

text \<open>
  C9, as amended. A successful ingestion of \<open>n\<close> items reports \<open>submittedCount = n\<close>
  together with the \<open>batchId\<close> exactly as the request supplied it; the \<open>n\<close> records are
  appended and stamped with the supplied \<open>batchId\<close> or, when none was supplied, with the
  time-derived default; and exactly one log entry of type \<open>record_submit\<close> is appended,
  carrying the count \<open>n\<close>, the \<open>batchId\<close> and \<open>deviceId\<close> as supplied, and the caller's
  address.
\<close>

theorem successful_submit_echoes_request:
  assumes "body_data req = Some items"
    and "post_records_plain sparse rt st req = (st', SubmitOk n b)"
  shows "n = length items \<and> b = body_batchId req
       \<and> length (records st') = length (records st) + length items
       \<and> (\<forall>i < length items.
            (records st' ! (length (records st) + i)) ''batchId''
              = js_or (body_batchId req) (JStr (''batch_'' @ decimal (dateNow rt i))))
       \<and> (\<exists>entry. logs st' = logs st @ [entry]
             \<and> entry ''type'' = JStr ''record_submit''
             \<and> entry ''count'' = JNum (of_nat (length items))
             \<and> entry ''batchId'' = body_batchId req
             \<and> entry ''deviceId'' = body_deviceId req
             \<and> entry ''ip'' = JStr (req_ip req))"
proof -
  let ?docs = "map (with_metadata rt req) (enumerate 0 items)"
  from assms obtain coll where
    ins: "insertMany sparse (driverId rt) (records st) ?docs = (coll, Inr n)"
    and recs: "records st' = coll"
    and lg: "logs st' = logs st @ [submit_log rt req (length items)]"
    and b: "b = body_batchId req"
    by (auto simp: post_records_plain_def insertOne_def Let_def split: prod.splits sum.splits)
  from insertMany_ok [OF ins] recs
  have n: "n = length items"
    and all: "records st' = records st @ map (assign_id (driverId rt)) (enumerate 0 ?docs)"
    by simp_all
  have stamped: "\<forall>i < length items.
            (records st' ! (length (records st) + i)) ''batchId''
              = js_or (body_batchId req) (JStr (''batch_'' @ decimal (dateNow rt i)))"
    using all by (simp add: nth_append nth_enumerate_eq assign_id_def with_metadata_def)
  have entry: "submit_log rt req (length items) ''type'' = JStr ''record_submit''
      \<and> submit_log rt req (length items) ''count'' = JNum (of_nat (length items))
      \<and> submit_log rt req (length items) ''batchId'' = body_batchId req
      \<and> submit_log rt req (length items) ''deviceId'' = body_deviceId req
      \<and> submit_log rt req (length items) ''ip'' = JStr (req_ip req)"
    by (simp add: submit_log_def)
  from n b all stamped lg entry show ?thesis by auto
qed

theorem successful_submit_echoes_request_witness:
  "snd (post_records_plain sparse_in_server_database_js example_runtime empty_store
          anonymous_batch) = SubmitOk 1 JUndef
   \<and> length (logs (fst (post_records_plain sparse_in_server_database_js example_runtime
        empty_store anonymous_batch))) = 1"
proof -
  let ?r = "post_records_plain sparse_in_server_database_js example_runtime empty_store
          anonymous_batch"
  have a: "body_data anonymous_batch = Some [empty_obj(''name'' := JStr ''A'')]"
    by (simp add: anonymous_batch_def)
  have s: "snd ?r = SubmitOk 1 JUndef"
    by (simp add: submit_defs anonymous_batch_def empty_store_def example_runtime_def
          sparse_in_server_database_js_def)
  then have run: "?r = (fst ?r, SubmitOk 1 JUndef)"
    by (metis prod.collapse)
  from successful_submit_echoes_request [OF a run]
  obtain entry where "logs (fst ?r) = logs empty_store @ [entry]"
    by blast
  then have "length (logs (fst ?r)) = 1"
    by (simp add: empty_store_def)
  with s show ?thesis by simp
qed

section \<open>Deletion\<close>

lemmas delete_defs =
  delete_records_def delete_target_def adminPassword_def qtruthy_def ObjectId_def
  deleteMany_def matches_target_def insertOne_def

text \<open>
  C4. The claim says that deleting a target that matches no record succeeds with a count
  of zero. The single-record branch builds \<open>new ObjectId(id)\<close> before it queries, and the
  constructor throws on a string that is not an ObjectId: with the right password, the
  target \<open>nonexistent\<close> ends in the handler's \<open>catch\<close>, the response is the failure
  one, and no log entry is written.
\<close>

theorem delete_nonexistent_fails:
  "delete_records None True 1700000000000 one_record_store delete_nonexistent
     = (one_record_store, ServerError BSONError)
   \<and> delete_records None False 1700000000000 one_record_store delete_nonexistent
     = (one_record_store, ServerError BSONError)"
  by (simp add: delete_defs delete_nonexistent_def)

text \<open>
  When the target does have the form of an ObjectId and matches nothing, the handler
  answers with a count of zero and logs it.
\<close>

lemma deleteOne_no_match:
  "\<not> list_ex p coll \<Longrightarrow> deleteOne p coll = (coll, 0)"
  by (induction coll) auto

lemma delete_unmatched_objectid:
  assumes "query_adminPassword req = Some (adminPassword env)"
    and "param_id req \<noteq> ''batch''" and "param_id req \<noteq> ''all''"
    and "ObjectId accept12 (param_id req) = Some oid"
    and "\<not> list_ex (matches_target oid (param_id req)) (records st)"
  shows "delete_records env accept12 t st req
           = (st\<lparr>logs := logs st @ [delete_log t req 0]\<rparr>, DeleteOk 0)"
  using assms by (simp add: delete_records_def delete_target_def deleteOne_no_match insertOne_def)

text \<open>
  C5. A deletion request whose \<open>adminPassword\<close> is not the configured secret (or is
  absent) is answered \<open>Unauthorized\<close>, whatever the target and mode, and leaves the store
  as it was: no record is deleted and no log entry is appended.
\<close>

theorem wrong_password_is_unauthorized:
  assumes "query_adminPassword req \<noteq> Some (adminPassword env)"
  shows "delete_records env accept12 t st req = (st, Unauthorized)"
  using assms by (simp add: delete_records_def)

theorem wrong_password_is_unauthorized_witness:
  "delete_records None True 1700000000000 one_record_store delete_all_wrong_password
     = (one_record_store, Unauthorized)"
proof -
  have "query_adminPassword delete_all_wrong_password \<noteq> Some (adminPassword None)"
    by (simp add: delete_all_wrong_password_def adminPassword_def)
  from wrong_password_is_unauthorized [OF this] show ?thesis .
qed


section \<open>Listing\<close>

lemmas list_defs =
  get_records_def build_query_def int_param_def with_default_def nonempty_def
  skip_limit_def sort_docs_def sort_direction_def matches_def countDocuments_def
  aggregate_stats_def accumulate_def zero_stats_def total_pages_def numeric_def
  regex_field_def date_ge_def date_le_def empty_obj_def Let_def

lemma foldl_accumulate:
  "foldl accumulate acc ds =
     \<lparr> totalAmountTWD = totalAmountTWD acc + sum_list (map (\<lambda>d. numeric (d ''amountTWD'')) ds),
       totalAmountRMB = totalAmountRMB acc + sum_list (map (\<lambda>d. numeric (d ''amountRMB'')) ds),
       count = count acc + length ds \<rparr>"
  by (induction ds arbitrary: acc) (simp_all add: accumulate_def add.assoc)

lemma get_records_body:
  assumes "get_records lib st req = Inr body"
  shows "totalCount (list_pagination body) = countDocuments lib (build_query lib req) (records st)"
    and "list_stats body =
           (case aggregate_stats lib (build_query lib req) (records st) of
              [] \<Rightarrow> zero_stats | s # rest \<Rightarrow> s)"
  using assms by (auto simp: get_records_def Let_def split: sum.splits)

text \<open>
  C6. In a listing response the \<open>count\<close> of the statistics equals \<open>totalCount\<close>, both
  being the number of records that match the query; the two totals are the sums of
  \<open>amountTWD\<close> and \<open>amountRMB\<close> over all matching records, whatever page was asked
  for (a value that is not a number adds nothing); and when no record matches the
  statistics are all zero.
\<close>

theorem filtered_stats_cover_all_matches:
  assumes "get_records lib st req = Inr body"
    and "found = filter (matches lib (build_query lib req)) (records st)"
  shows "count (list_stats body) = totalCount (list_pagination body)
       \<and> totalCount (list_pagination body) = length found
       \<and> totalAmountTWD (list_stats body) = sum_list (map (\<lambda>d. numeric (d ''amountTWD'')) found)
       \<and> totalAmountRMB (list_stats body) = sum_list (map (\<lambda>d. numeric (d ''amountRMB'')) found)
       \<and> (found = [] \<longrightarrow> list_stats body = zero_stats)"
proof -
  have total: "totalCount (list_pagination body) = length found"
    using get_records_body(1) [OF assms(1)] assms(2) by (simp add: countDocuments_def)
  have stats: "list_stats body =
      (case found of [] \<Rightarrow> zero_stats | d # ds \<Rightarrow> foldl accumulate zero_stats found)"
    using get_records_body(2) [OF assms(1)] assms(2)
    by (simp add: aggregate_stats_def split: list.splits)
  show ?thesis
  proof (cases found)
    case Nil
    with total stats show ?thesis by (simp add: zero_stats_def)
  next
    case (Cons d ds)
    with stats have "list_stats body = foldl accumulate zero_stats found" by simp
    then have "list_stats body =
        \<lparr> totalAmountTWD = sum_list (map (\<lambda>d. numeric (d ''amountTWD'')) found),
          totalAmountRMB = sum_list (map (\<lambda>d. numeric (d ''amountRMB'')) found),
          count = length found \<rparr>"
      by (simp only: foldl_accumulate) (simp add: zero_stats_def)
    with total Cons show ?thesis by simp
  qed
qed

theorem filtered_stats_cover_all_matches_witness:
  "\<exists>body. get_records example_query_lib three_record_store list_project_X = Inr body
     \<and> length (list_data body) = 2
     \<and> count (list_stats body) = 3
     \<and> totalAmountTWD (list_stats body) = 600
     \<and> totalAmountRMB (list_stats body) = 150"
proof -
  obtain body where
    run: "get_records example_query_lib three_record_store list_project_X = Inr body"
    and page: "length (list_data body) = 2"
    by (simp add: list_defs three_record_store_def list_project_X_def example_query_lib_def)
  have found: "map (\<lambda>d. (numeric (d ''amountTWD''), numeric (d ''amountRMB'')))
        (filter (matches example_query_lib (build_query example_query_lib list_project_X))
           (records three_record_store)) = [(100, 25), (200, 50), (300, 75)]"
    by (simp add: list_defs three_record_store_def list_project_X_def example_query_lib_def)
  from found have twd: "sum_list (map (\<lambda>d. numeric (d ''amountTWD''))
        (filter (matches example_query_lib (build_query example_query_lib list_project_X))
           (records three_record_store))) = 600"
    and rmb: "sum_list (map (\<lambda>d. numeric (d ''amountRMB''))
        (filter (matches example_query_lib (build_query example_query_lib list_project_X))
           (records three_record_store))) = 150"
    and len: "length
        (filter (matches example_query_lib (build_query example_query_lib list_project_X))
           (records three_record_store)) = 3"
    by (simp_all add: list_defs three_record_store_def list_project_X_def example_query_lib_def)
  from filtered_stats_cover_all_matches [OF run refl] twd rmb len page run
  show ?thesis by simp
qed

lemma skip_limit_sorted_wrt:
  "skip_limit skip lmt docs = Inr pg \<Longrightarrow> sorted_wrt P (map f docs) \<Longrightarrow> sorted_wrt P (map f pg)"
proof -
  assume srt: "sorted_wrt P (map f docs)" and run: "skip_limit skip lmt docs = Inr pg"
  have a: "sorted_wrt P (map f (drop n docs))" for n
    using srt by (simp only: drop_map [symmetric] sorted_wrt_drop)
  have b: "sorted_wrt P (map f (take m (drop n docs)))" for m n
    using a [of n] by (simp only: take_map [symmetric] sorted_wrt_take)
  from run a b show ?thesis
    by (auto simp: skip_limit_def split: option.splits if_splits)
qed

lemma skip_limit_succeeds_alike:
  "skip_limit skip lmt docs = Inr pg \<Longrightarrow> \<exists>pg'. skip_limit skip lmt docs' = Inr pg'"
  by (auto simp: skip_limit_def split: option.splits if_splits)

lemma sort_docs_sorted:
  "sort_docs field Ascending docs = ds \<Longrightarrow> sorted (map (\<lambda>d. bson_key (d field)) ds)"
  "sort_docs field Descending docs = ds \<Longrightarrow> sorted_wrt (\<ge>) (map (\<lambda>d. bson_key (d field)) ds)"
proof -
  show "sort_docs field Ascending docs = ds \<Longrightarrow> sorted (map (\<lambda>d. bson_key (d field)) ds)"
    by (auto simp: sort_docs_def)
  have "sorted (rev (map (\<lambda>d. bson_key (d field)) (rev (sort_key (\<lambda>d. bson_key (d field)) docs))))"
    by (simp add: rev_map [symmetric])
  then have "sorted_wrt (\<ge>) (map (\<lambda>d. bson_key (d field)) (rev (sort_key (\<lambda>d. bson_key (d field)) docs)))"
    by (simp only: sorted_wrt_rev)
  then show "sort_docs field Descending docs = ds \<Longrightarrow> sorted_wrt (\<ge>) (map (\<lambda>d. bson_key (d field)) ds)"
    by (auto simp: sort_docs_def)
qed

text \<open>
  C10. The listing sorts in descending order exactly when \<open>sortOrder\<close> is absent or is
  the string \<open>desc\<close>; with any other value the page comes in ascending order of the
  \<open>sortBy\<close> field, and the value of \<open>sortOrder\<close> never makes a listing fail.
\<close>

theorem only_exact_desc_sorts_descending:
  assumes run: "get_records lib st req = Inr body"
    and keys: "keys = map (\<lambda>d. bson_key (d (with_default ''submittedAt'' (q_sortBy req))))
                 (list_data body)"
  shows "sort_direction (q_sortOrder req) =
           (if q_sortOrder req = None \<or> q_sortOrder req = Some ''desc''
            then Descending else Ascending)
       \<and> (sort_direction (q_sortOrder req) = Descending \<longrightarrow> sorted_wrt (\<ge>) keys)
       \<and> (sort_direction (q_sortOrder req) = Ascending \<longrightarrow> sorted keys)
       \<and> (\<forall>so. \<exists>body'. get_records lib st (req\<lparr>q_sortOrder := so\<rparr>) = Inr body')"
proof -
  let ?field = "with_default ''submittedAt'' (q_sortBy req)"
  let ?pg = "int_param lib 1 (q_page req)"
  let ?lm = "int_param lib 50 (q_limit req)"
  let ?skip = "case (?pg, ?lm) of (Some p, Some l) \<Rightarrow> Some ((p - 1) * l) | other \<Rightarrow> None"
  let ?found = "filter (matches lib (build_query lib req)) (records st)"
  have dir: "sort_direction (q_sortOrder req) =
           (if q_sortOrder req = None \<or> q_sortOrder req = Some ''desc''
            then Descending else Ascending)"
    by (auto simp: sort_direction_def with_default_def split: option.splits)
  from run have page: "skip_limit ?skip ?lm
        (sort_docs ?field (sort_direction (q_sortOrder req)) ?found) = Inr (list_data body)"
    by (auto simp: get_records_def Let_def split: sum.splits)
  have desc: "sort_direction (q_sortOrder req) = Descending \<Longrightarrow> sorted_wrt (\<ge>) keys"
    using skip_limit_sorted_wrt [OF page, of "(\<ge>)" "\<lambda>d. bson_key (d ?field)"]
      sort_docs_sorted(2) [OF refl, of ?field ?found] keys
    by simp
  have asc: "sort_direction (q_sortOrder req) = Ascending \<Longrightarrow> sorted keys"
    using skip_limit_sorted_wrt [OF page, of "(\<le>)" "\<lambda>d. bson_key (d ?field)"]
      sort_docs_sorted(1) [OF refl, of ?field ?found] keys
    by simp
  have any: "\<exists>body'. get_records lib st (req\<lparr>q_sortOrder := so\<rparr>) = Inr body'" for so
  proof -
    from skip_limit_succeeds_alike [OF page]
    obtain pg' where "skip_limit ?skip ?lm (sort_docs ?field (sort_direction so) ?found) = Inr pg'"
      by blast
    then show ?thesis
      by (simp add: get_records_def build_query_def Let_def)
  qed
  from dir desc asc any show ?thesis by blast
qed

theorem only_exact_desc_sorts_descending_witness:
  "\<exists>body. get_records example_query_lib three_record_store list_project_X = Inr body
     \<and> q_sortOrder list_project_X = Some ''DESC''
     \<and> map (\<lambda>d. d ''submittedAt'') (list_data body) = [JDate 2, JDate 3]
     \<and> sorted (map (\<lambda>d. bson_key (d ''submittedAt'')) (list_data body))"
proof -
  obtain body where
    run: "get_records example_query_lib three_record_store list_project_X = Inr body"
    and page: "map (\<lambda>d. d ''submittedAt'') (list_data body) = [JDate 2, JDate 3]"
    by (simp add: list_defs three_record_store_def list_project_X_def example_query_lib_def)
  have so: "q_sortOrder list_project_X = Some ''DESC''"
    and sb: "with_default ''submittedAt'' (q_sortBy list_project_X) = ''submittedAt''"
    by (simp_all add: list_project_X_def with_default_def)
  from only_exact_desc_sorts_descending [OF run refl] so sb
  have "sorted (map (\<lambda>d. bson_key (d ''submittedAt'')) (list_data body))"
    by simp
  with run page so show ?thesis by simp
qed


section \<open>Export\<close>

lemmas export_defs =
  csv_row_def spec_row_def text_or_empty_def fixed_amount_def iso_instant_def raw_amount_def
  quoted_field_def quoted_def double_quotes_def newlines_to_semicolons_def js_or_def
  empty_obj_def

text \<open>
  C7. The claim lists content, payment status and contact before the two amounts. The
  handler writes the amounts right after the method, as its own header line does: for
  the record below the fifth and sixth cells are the amounts and the seventh is the
  content, so the row is not the one the claim describes.
\<close>

theorem amounts_precede_content_counterexample:
  "csv_row example_format_lib 0 example_record =
     Inr [''1'', quoted ''A'', quoted ''X'', quoted ''m'', ''100'', ''25.00'', quoted ''c'',
          quoted ''paid'', quoted ''T'', ''2023-11-14T22:13:20.000Z'', quoted ''D1'',
          quoted ''B1'', quoted ''L1'']
   \<and> csv_row example_format_lib 0 example_record \<noteq> spec_row example_format_lib 0 example_record"
  by (simp add: export_defs example_record_def example_format_lib_def decimal.simps)

lemma text_or_empty_cell: "text_or_empty v = Inr s \<Longrightarrow> s = text_of v"
  by (cases v) (auto simp: text_or_empty_def text_of_def js_or_def split: if_splits)

lemma fixed_amount_cell: "fixed_amount lib v = Inr s \<Longrightarrow> s = two_decimals lib v"
  by (cases v) (auto simp: fixed_amount_def two_decimals_def split: if_splits)

lemma iso_instant_cell: "iso_instant lib v = Inr s \<Longrightarrow> s = instant_of lib v"
  by (cases v) (auto simp: iso_instant_def instant_of_def split: if_splits option.splits)

lemma csv_row_cells:
  assumes "csv_row lib index item = Inr row"
  shows "row =
         [decimal (index + 1),
          quoted_field lib (item ''name''),
          quoted_field lib (item ''project''),
          quoted (newlines_to_semicolons (double_quotes (text_of (item ''method'')))),
          raw_amount lib (item ''amountTWD''),
          two_decimals lib (item ''amountRMB''),
          quoted (double_quotes (text_of (item ''content''))),
          quoted_field lib (item ''payment''),
          quoted_field lib (item ''contact''),
          instant_of lib (item ''submittedAt''),
          quoted_field lib (item ''deviceId''),
          quoted_field lib (item ''batchId''),
          quoted_field lib (item ''localId'')]"
proof -
  from assms obtain m a c t where
    m: "text_or_empty (item ''method'') = Inr m"
    and a: "fixed_amount lib (item ''amountRMB'') = Inr a"
    and c: "text_or_empty (item ''content'') = Inr c"
    and t: "iso_instant lib (item ''submittedAt'') = Inr t"
    by (auto simp: csv_row_def split: sum.splits)
  from assms m a c t show ?thesis
    by (simp add: csv_row_def text_or_empty_cell [OF m] fixed_amount_cell [OF a]
          text_or_empty_cell [OF c] iso_instant_cell [OF t])
qed

lemma append_rows_cells:
  assumes "append_rows lib i rs acc = Inr doc"
  shows "doc =
     (acc @ concat (map (\<lambda>(index, item).
        join '','' [decimal (index + 1),
          quoted_field lib (item ''name''),
          quoted_field lib (item ''project''),
          quoted (newlines_to_semicolons (double_quotes (text_of (item ''method'')))),
          raw_amount lib (item ''amountTWD''),
          two_decimals lib (item ''amountRMB''),
          quoted (double_quotes (text_of (item ''content''))),
          quoted_field lib (item ''payment''),
          quoted_field lib (item ''contact''),
          instant_of lib (item ''submittedAt''),
          quoted_field lib (item ''deviceId''),
          quoted_field lib (item ''batchId''),
          quoted_field lib (item ''localId'')] @ [CHR 0x0A]) (enumerate i rs)))"
  using assms
proof (induction rs arbitrary: i acc)
  case Nil
  then show ?case by simp
next
  case (Cons r rs)
  from Cons.prems obtain row where row: "csv_row lib i r = Inr row"
    and rest: "append_rows lib (Suc i) rs (acc @ join '','' row @ [CHR 0x0A]) = Inr doc"
    by (auto split: sum.splits)
  from Cons.IH [OF rest] show ?case
    by (simp only: csv_row_cells [OF row] enumerate_simps list.map concat.simps prod.case
          append_assoc)
qed

text \<open>
  A stored record can make the export fail: an \<open>amountRMB\<close> kept as text has no
  \<open>toFixed\<close>, and the handler answers with the failure response.
\<close>

lemma text_amountRMB_fails_export:
  "export_csv lib \<lparr> records = [empty_obj(''amountRMB'' := JStr ''25'')], logs = [] \<rparr>
     = Inl TypeError"
  by (simp add: export_csv_def sort_docs_def csv_row_def text_or_empty_def fixed_amount_def
        js_or_def empty_obj_def Let_def)

text \<open>
  C7, as amended. After the byte-order mark and the header line the export emits one
  line per record, in descending order of \<open>submittedAt\<close>, whose cells are, in this
  order: sequence number (from 1), name, project, method (double quotes doubled, line
  feeds replaced by \<open>; \<close>), \<open>amountTWD\<close> (raw, \<open>0\<close> by default), \<open>amountRMB\<close> (two
  decimals, \<open>0\<close> by default), content (double quotes doubled only), payment status,
  contact, \<open>submittedAt\<close> (ISO-8601, empty by default), \<open>deviceId\<close>, \<open>batchId\<close>,
  \<open>localId\<close>; the text cells are wrapped in double quotes and empty by default. This
  holds of every document the export answers with, whatever records the store holds.
\<close>

theorem export_rows_follow_header_order:
  assumes "export_csv lib st = Inr doc"
    and "found = sort_docs ''submittedAt'' Descending (records st)"
  shows "doc =
     (BOM @ join '','' headers @ [CHR 0x0A] @ concat (map (\<lambda>(index, item).
        join '','' [decimal (index + 1),
          quoted_field lib (item ''name''),
          quoted_field lib (item ''project''),
          quoted (newlines_to_semicolons (double_quotes (text_of (item ''method'')))),
          raw_amount lib (item ''amountTWD''),
          two_decimals lib (item ''amountRMB''),
          quoted (double_quotes (text_of (item ''content''))),
          quoted_field lib (item ''payment''),
          quoted_field lib (item ''contact''),
          instant_of lib (item ''submittedAt''),
          quoted_field lib (item ''deviceId''),
          quoted_field lib (item ''batchId''),
          quoted_field lib (item ''localId'')] @ [CHR 0x0A]) (enumerate 0 found)))"
proof -
  from assms have "append_rows lib 0 found (BOM @ join '','' headers @ [CHR 0x0A]) = Inr doc"
    by (simp add: export_csv_def Let_def)
  from append_rows_cells [OF this] show ?thesis
    by simp
qed

theorem export_rows_follow_header_order_witness:
  "\<exists>doc. export_csv example_format_lib one_row_store = Inr doc
     \<and> map length (csv_parse doc) = [13, 13]
     \<and> csv_parse doc ! 1 =
         [''1'', ''A'', ''X'', ''m'', ''100'', ''25.00'', ''c'', ''paid'', ''T'',
          ''2023-11-14T22:13:20.000Z'', ''D1'', ''B1'', ''L1'']"
proof -
  obtain doc where run: "export_csv example_format_lib one_row_store = Inr doc"
    by (simp add: export_csv_def one_row_store_def example_record_def example_format_lib_def
          sort_docs_def export_defs decimal.simps Let_def)
  have cells: "map length (csv_parse doc) = [13, 13]
     \<and> csv_parse doc ! 1 =
         [''1'', ''A'', ''X'', ''m'', ''100'', ''25.00'', ''c'', ''paid'', ''T'',
          ''2023-11-14T22:13:20.000Z'', ''D1'', ''B1'', ''L1'']"
    unfolding export_rows_follow_header_order [OF run refl]
    by (simp add: one_row_store_def example_record_def example_format_lib_def sort_docs_def
          export_defs text_of_def two_decimals_def instant_of_def headers_def BOM_def
          csv_parse_def decimal.simps)
  show ?thesis
  proof (intro exI conjI)
    show "export_csv example_format_lib one_row_store = Inr doc"
      by (fact run)
    show "map length (csv_parse doc) = [13, 13]"
      using cells by (rule conjunct1)
    show "csv_parse doc ! 1 =
         [''1'', ''A'', ''X'', ''m'', ''100'', ''25.00'', ''c'', ''paid'', ''T'',
          ''2023-11-14T22:13:20.000Z'', ''D1'', ''B1'', ''L1'']"
      using cells by (rule conjunct2)
  qed
qed

text \<open>
  C8. The claim says that every line of the export has 13 columns for a standard reader,
  whatever the field values. The handler doubles the double quotes of \<open>method\<close> and
  \<open>content\<close> only; the other text cells are wrapped in double quotes as they are. A
  name that contains \<open>","\<close> closes its own cell: the reader finds 14 columns on that
  line.
\<close>

theorem unescaped_quote_breaks_columns:
  "\<exists>doc. export_csv example_format_lib quote_in_name_store = Inr doc
     \<and> map length (csv_parse doc) = [13, 14]"
  by (simp add: export_csv_def quote_in_name_store_def example_record_def
        example_format_lib_def sort_docs_def export_defs headers_def BOM_def csv_parse_def
        decimal.simps Let_def)

text \<open>
  What does hold for every record set: the document starts with the byte-order mark, the
  header has 13 labels, and every row is joined from 13 cells.
\<close>

lemma csv_row_13: "csv_row lib index item = Inr row \<Longrightarrow> length row = 13"
  by (auto simp: csv_row_def split: sum.splits)

lemma append_rows_prefix:
  "append_rows lib i rs acc = Inr doc \<Longrightarrow> take (length acc) doc = acc"
proof (induction rs arbitrary: i acc)
  case Nil
  then show ?case by simp
next
  case (Cons r rs)
  then obtain row where "csv_row lib i r = Inr row"
    and "append_rows lib (Suc i) rs (acc @ join '','' row @ [CHR 0x0A]) = Inr doc"
    by (auto split: sum.splits)
  from Cons.IH [OF this(2)] have "take (length acc) (take (length (acc @ join '','' row @ [CHR 0x0A])) doc) = acc"
    by simp
  then show ?case by (simp add: min_def)
qed

lemma export_bom_and_13_labels:
  "length headers = 13 \<and> (export_csv lib st = Inr doc \<longrightarrow> take 3 doc = BOM)"
proof -
  have "export_csv lib st = Inr doc \<Longrightarrow> take 3 doc = BOM"
  proof -
    assume "export_csv lib st = Inr doc"
    from append_rows_prefix [OF this [unfolded export_csv_def Let_def]]
    have "take 3 (take (length (BOM @ join '','' headers @ [CHR 0x0A])) doc)
            = take 3 (BOM @ join '','' headers @ [CHR 0x0A])"
      by simp
    then show ?thesis by (simp add: BOM_def min_def)
  qed
  then show ?thesis by (simp add: headers_def)
qed


end
